theory Spec2Isabelle
  imports Main "HOL-Library.Word"
begin

section \<open>Text\<close>

text \<open>
  A JavaScript string is a sequence of UTF-16 code units; \<open>str.length\<close> counts them and
  \<open>str[i]\<close> reads one. The literals of the theorems below are written \<open>js ''...''\<close>.
\<close>

type_synonym code_unit = "16 word"
type_synonym jsstring = "code_unit list"

definition js :: "string \<Rightarrow> jsstring" where
  "js s = map of_char s"

section \<open>The boundary scanner: \<open>findCompleteJsonEnd\<close>\<close>

text \<open>
  The three local variables of \<open>findCompleteJsonEnd\<close> (src/index.js, 1225-1261).
  \<open>braceCount\<close> is a JavaScript number that is only incremented and decremented by one.
\<close>

record scanner =
  braceCount :: int
  inString :: bool
  escape :: bool

definition scanner_start :: scanner where
  "scanner_start = \<lparr>braceCount = 0, inString = False, escape = False\<rparr>"

text \<open>
  One iteration of the \<open>for\<close> loop on the character \<open>char\<close>: either the function returns
  the current index, or the loop goes on with the variables as assigned. The character codes
  are the backslash (0x5C), the double quote (0x22), \<open>{\<close> (0x7B) and \<open>}\<close> (0x7D).
\<close>

datatype iteration = Next scanner | Return

definition loop_body :: "scanner \<Rightarrow> code_unit \<Rightarrow> iteration" where
  "loop_body v char =
     (if escape v then Next (v\<lparr>escape := False\<rparr>)
      else if char = 0x5C then Next (v\<lparr>escape := True\<rparr>)
      else if char = 0x22 then Next (v\<lparr>inString := \<not> inString v\<rparr>)
      else if inString v then Next v
      else if char = 0x7B then Next (v\<lparr>braceCount := braceCount v + 1\<rparr>)
      else if char = 0x7D then
        (if braceCount v - 1 = 0 then Return
         else Next (v\<lparr>braceCount := braceCount v - 1\<rparr>))
      else Next v)"

text \<open>The loop from index \<open>i\<close> over the rest of the string; \<open>- 1\<close> when it runs off the end.\<close>

fun scan_loop :: "nat \<Rightarrow> scanner \<Rightarrow> jsstring \<Rightarrow> int" where
  "scan_loop i v [] = - 1"
| "scan_loop i v (char # rest) =
     (case loop_body v char of
        Return \<Rightarrow> int i
      | Next v' \<Rightarrow> scan_loop (Suc i) v' rest)"

definition findCompleteJsonEnd :: "jsstring \<Rightarrow> int" where
  "findCompleteJsonEnd str = scan_loop 0 scanner_start str"

text \<open>
  The assignments one iteration makes to the three variables, the \<open>return\<close> left out
  (\<open>braceCount--\<close> runs before the test that returns), and the values the variables have
  when iteration \<open>i\<close> starts if no earlier iteration returned. \<open>closes_at str i\<close>: the
  character at \<open>i\<close> is a closing brace read outside a string and not escaped, and it brings
  \<open>braceCount\<close> to zero.
\<close>

definition assignments :: "scanner \<Rightarrow> code_unit \<Rightarrow> scanner" where
  "assignments v char =
     (case loop_body v char of
        Next v' \<Rightarrow> v'
      | Return \<Rightarrow> v\<lparr>braceCount := braceCount v - 1\<rparr>)"

definition vars_at :: "jsstring \<Rightarrow> nat \<Rightarrow> scanner" where
  "vars_at str i = foldl assignments scanner_start (take i str)"

definition closes_at :: "jsstring \<Rightarrow> nat \<Rightarrow> bool" where
  "closes_at str i \<longleftrightarrow>
     str ! i = 0x7D \<and> \<not> inString (vars_at str i) \<and> \<not> escape (vars_at str i)
     \<and> braceCount (vars_at str (Suc i)) = 0"

definition returns_at :: "scanner \<Rightarrow> jsstring \<Rightarrow> nat \<Rightarrow> bool" where
  "returns_at v str k \<longleftrightarrow>
     loop_body (foldl assignments v (take k str)) (str ! k) = Return"

section \<open>The layer, its map and the engine\<close>

text \<open>
  The engine is the WebAssembly object \<open>map.wasmMap\<close>; its code is not part of the
  JavaScript sources. The layer sees it only through calls that return or raise, so the
  model keeps the trace of the calls made, in order, and takes the engine's answers as
  functions of that trace: \<open>throws E calls c\<close> says whether the call \<open>c\<close> raises after
  the calls \<open>calls\<close>, \<open>feature_count E calls k\<close> is the number
  \<open>get_geojson_feature_count(k)\<close> returns then. \<open>JSON_parse\<close> is \<open>JSON.parse\<close>,
  \<open>None\<close> when it raises.
\<close>

datatype call =
    Add_geojson_layer
  | Load_geojson nat "jsstring option"
  | Load_geojson_chunk nat jsstring bool
  | Set_geojson_style nat
  | Get_geojson_feature_count nat
  | Load_geojson_from_url "nat option" jsstring

text \<open>
  A JavaScript value, as far as this code looks at it: a string, or any other value, of
  which the code only tests the truthiness and takes \<open>JSON.stringify\<close> (a text,
  \<open>undefined\<close>, or an exception).
\<close>

datatype stringified = Json jsstring | Undefined | Throws

datatype jsvalue = Str jsstring | Other bool stringified

definition null :: jsvalue where
  "null = Other False (Json (js ''null''))"

fun truthy :: "jsvalue \<Rightarrow> bool" where
  "truthy (Str t) = (t \<noteq> [])"
| "truthy (Other b s) = b"

datatype error =
    Thrown_by_engine call
  | Stringify_failed
  | No_map
  | Http_error
  | Read_failed nat
  | Timed_out

datatype warning = Failed_to_process_chunk error | Invalid_JSON_string

record env =
  throws :: "call list \<Rightarrow> call \<Rightarrow> bool"
  feature_count :: "call list \<Rightarrow> nat \<Rightarrow> int"
  JSON_parse :: "jsstring \<Rightarrow> jsvalue option"

text \<open>
  The fields of a \<open>GeoJSONLayer\<close> (\<open>on_map\<close>: \<open>this.map\<close> is set; \<open>layerIndex\<close> is
  \<open>None\<close> while undefined; \<open>pendingTimer\<close>: the interval is armed), the counter
  \<open>_geojsonLayerCount\<close> of the map it is added to (\<open>None\<close> while not a number), the
  trace of engine calls and the \<open>console.warn\<close> lines.
\<close>

record layer_state =
  on_map :: bool
  layerIndex :: "nat option"
  geojson :: jsvalue
  dataLoaded :: bool
  pendingGeoJSONText :: "jsstring option"
  pendingTimer :: bool
  geojsonLayerCount :: "nat option"
  calls :: "call list"
  warnings :: "warning list"

text \<open>\<open>new GeoJSONLayer(geojson)\<close>, not yet on a map; a new \<open>Map\<close> has its counter at 0.\<close>

definition new_layer :: "jsvalue \<Rightarrow> layer_state" where
  "new_layer g =
     \<lparr>on_map = False, layerIndex = None, geojson = g, dataLoaded = False,
      pendingGeoJSONText = None, pendingTimer = False, geojsonLayerCount = Some 0,
      calls = [], warnings = []\<rparr>"

text \<open>A call of the engine: it is recorded, and it raises or returns.\<close>

definition wasm :: "env \<Rightarrow> call \<Rightarrow> layer_state \<Rightarrow> error option \<times> layer_state" where
  "wasm E c w =
     (if throws E (calls w) c then Some (Thrown_by_engine c) else None,
      w\<lparr>calls := calls w @ [c]\<rparr>)"

text \<open>
  The records dispatched so far are the \<open>load_geojson_chunk\<close> calls of the trace, each
  with its text and its \<open>isFinal\<close> flag.
\<close>

fun is_chunk :: "call \<Rightarrow> bool" where
  "is_chunk (Load_geojson_chunk k text isFinal) = True"
| "is_chunk c = False"

definition dispatched :: "layer_state \<Rightarrow> call list" where
  "dispatched w = filter is_chunk (calls w)"

text \<open>The payloads handed to the engine so far: the \<open>load_geojson\<close> calls of the trace.\<close>

fun is_load :: "call \<Rightarrow> bool" where
  "is_load (Load_geojson k text) = True"
| "is_load c = False"

definition forwarded :: "layer_state \<Rightarrow> call list" where
  "forwarded w = filter is_load (calls w)"

text \<open>\<open>processChunk\<close> (1264-1272): the guard, the call, the \<open>catch\<close> that warns.\<close>

definition processChunk :: "env \<Rightarrow> jsstring \<Rightarrow> bool \<Rightarrow> layer_state \<Rightarrow> layer_state" where
  "processChunk E chunk isFinal w =
     (case layerIndex w of
        Some k \<Rightarrow>
          if on_map w then
            (case wasm E (Load_geojson_chunk k chunk isFinal) w of
               (None, w') \<Rightarrow> w'
             | (Some e, w') \<Rightarrow> w'\<lparr>warnings := warnings w' @ [Failed_to_process_chunk e]\<rparr>)
          else w
      | None \<Rightarrow> w)"

text \<open>\<open>getFeatureCount\<close> (1275-1284): 0 when detached or when the engine raises.\<close>

definition getFeatureCount :: "env \<Rightarrow> layer_state \<Rightarrow> int \<times> layer_state" where
  "getFeatureCount E w =
     (case layerIndex w of
        Some k \<Rightarrow>
          if on_map w then
            (case wasm E (Get_geojson_feature_count k) w of
               (None, w') \<Rightarrow> (feature_count E (calls w) k, w')
             | (Some e, w') \<Rightarrow> (0, w'))
          else (0, w)
      | None \<Rightarrow> (0, w))"

text \<open>\<open>updateStyle\<close> (1296-1307); the style record it passes is left out of the trace.\<close>

definition updateStyle :: "env \<Rightarrow> layer_state \<Rightarrow> error option \<times> layer_state" where
  "updateStyle E w =
     (case layerIndex w of
        Some k \<Rightarrow> if on_map w then wasm E (Set_geojson_style k) w else (None, w)
      | None \<Rightarrow> (None, w))"

section \<open>\<open>loadData\<close>, the pending timer and \<open>addTo\<close>\<close>

text \<open>
  A JavaScript exception does not undo the assignments made before it, so a method that
  may raise returns the error, if any, together with the state it leaves.

  The \<open>try\<close> block shared by the three places that hand a text to the engine:
  \<open>load_geojson\<close>, then \<open>updateStyle\<close>.
\<close>

definition load_and_style ::
  "env \<Rightarrow> nat \<Rightarrow> jsstring option \<Rightarrow> layer_state \<Rightarrow> error option \<times> layer_state" where
  "load_and_style E k text w =
     (case wasm E (Load_geojson k text) w of
        (Some e, w') \<Rightarrow> (Some e, w')
      | (None, w') \<Rightarrow> updateStyle E w')"

text \<open>
  \<open>loadData\<close> (1035-1094). The guard on \<open>dataLoaded\<close> comes first; the flag is set as
  soon as the payload is normalised, whether the text is then handed to the engine or
  stored as pending.
\<close>

definition loadData :: "env \<Rightarrow> jsvalue \<Rightarrow> layer_state \<Rightarrow> error option \<times> layer_state" where
  "loadData E payload w =
     (if dataLoaded w then (None, w)
      else
        let (jsonObject, jsonText, w1) =
              (case payload of
                 Str t \<Rightarrow>
                   (case JSON_parse E t of
                      Some v \<Rightarrow> (v, Some t, w)
                    | None \<Rightarrow> (null, Some t, w\<lparr>warnings := warnings w @ [Invalid_JSON_string]\<rparr>))
               | Other b st \<Rightarrow>
                   (payload, (case st of Json t \<Rightarrow> Some t | Undefined \<Rightarrow> None | Throws \<Rightarrow> None), w));
            w2 = w1\<lparr>geojson := jsonObject, dataLoaded := True\<rparr>
        in case jsonText of
             None \<Rightarrow> (None, w2)
           | Some t \<Rightarrow>
               if t = [] then (None, w2)
               else
                 (case layerIndex w2 of
                    Some k \<Rightarrow>
                      if on_map w2 then
                        (case load_and_style E k (Some t) w2 of
                           (Some e, w3) \<Rightarrow> (Some e, w3)
                         | (None, w3) \<Rightarrow> (None, w3\<lparr>pendingGeoJSONText := None\<rparr>))
                      else (None, w2\<lparr>pendingGeoJSONText := Some t, pendingTimer := True\<rparr>)
                  | None \<Rightarrow> (None, w2\<lparr>pendingGeoJSONText := Some t, pendingTimer := True\<rparr>)))"

text \<open>
  One firing of the interval armed by \<open>loadData\<close> (1077-1088); it fires only while armed.
  The \<open>finally\<close> block runs whether or not the \<open>try\<close> block raised.
\<close>

definition pendingTimer_fires :: "env \<Rightarrow> layer_state \<Rightarrow> error option \<times> layer_state" where
  "pendingTimer_fires E w =
     (if \<not> pendingTimer w then (None, w)
      else
        (case (layerIndex w, pendingGeoJSONText w) of
           (Some k, Some t) \<Rightarrow>
             if on_map w \<and> t \<noteq> [] then
               (case load_and_style E k (Some t) w of
                  (r, w') \<Rightarrow> (r, w'\<lparr>pendingGeoJSONText := None, pendingTimer := False\<rparr>))
             else (None, w)
         | _ \<Rightarrow> (None, w)))"

text \<open>The branch \<open>else if (this.geojson)\<close> of \<open>addTo\<close> (1332-1341).\<close>

definition addTo_existing :: "env \<Rightarrow> nat \<Rightarrow> layer_state \<Rightarrow> error option \<times> layer_state" where
  "addTo_existing E k w =
     (if truthy (geojson w) then
        (case (case geojson w of Str t \<Rightarrow> Json t | Other b st \<Rightarrow> st) of
           Json t \<Rightarrow> load_and_style E k (Some t) w
         | Undefined \<Rightarrow> load_and_style E k None w
         | Throws \<Rightarrow> (Some Stringify_failed, w))
      else (None, w))"

text \<open>
  \<open>addTo\<close> (1310-1344): the layer takes the map's next index, then flushes the pending
  text if there is one, else hands the data it holds to the engine.
\<close>

definition addTo :: "env \<Rightarrow> layer_state \<Rightarrow> error option \<times> layer_state" where
  "addTo E w =
     (case wasm E Add_geojson_layer (w\<lparr>on_map := True\<rparr>) of
        (Some e, w1) \<Rightarrow> (Some e, w1)
      | (None, w1) \<Rightarrow>
          let k = (case geojsonLayerCount w1 of Some c \<Rightarrow> c | None \<Rightarrow> 0);
              w2 = w1\<lparr>layerIndex := Some k, geojsonLayerCount := Some (k + 1)\<rparr>
          in case pendingGeoJSONText w2 of
               Some t \<Rightarrow>
                 if t \<noteq> [] then
                   (case load_and_style E k (Some t) w2 of
                      (r, w3) \<Rightarrow> (r, w3\<lparr>pendingGeoJSONText := None, pendingTimer := False\<rparr>))
                 else addTo_existing E k w2
             | None \<Rightarrow> addTo_existing E k w2)"

section \<open>\<open>processStreamingBuffer\<close>\<close>

text \<open>
  The \<open>while (true)\<close> loop of \<open>processStreamingBuffer\<close> (1205-1222) on its own parameter
  \<open>buffer\<close> and counter \<open>processed\<close>. \<open>substring(0, endIndex + 1)\<close> is \<open>take\<close>,
  \<open>substring(endIndex + 1)\<close> is \<open>drop\<close>. The result is the layer after the dispatches and
  the returned object \<open>{processed, remaining}\<close>.
\<close>

function processStreamingBuffer_loop ::
  "env \<Rightarrow> layer_state \<Rightarrow> jsstring \<Rightarrow> nat \<Rightarrow> layer_state \<times> nat \<times> jsstring" where
  "processStreamingBuffer_loop E w buffer processed =
     (if findCompleteJsonEnd buffer = - 1 then (w, processed, buffer)
      else processStreamingBuffer_loop E
             (processChunk E (take (nat (findCompleteJsonEnd buffer + 1)) buffer) False w)
             (drop (nat (findCompleteJsonEnd buffer + 1)) buffer)
             (processed + 1))"
  by pat_completeness auto
termination
proof (relation "measure (\<lambda>(E, w, buffer, processed). length buffer)")
  show "wf (measure (\<lambda>(E, w, buffer, processed). length buffer))" by simp
next
  fix E :: env and w :: layer_state and buffer :: jsstring and processed :: nat
  assume found: "findCompleteJsonEnd buffer \<noteq> - 1"
  have lower: "scan_loop i v s = - 1 \<or> int i \<le> scan_loop i v s" for i v s
  proof (induction s arbitrary: i v)
    case Nil
    show ?case by simp
  next
    case (Cons c cs)
    from Cons [of "Suc i"] show ?case
      by (cases "loop_body v c") (force split: iteration.splits)+
  qed
  have "0 \<le> findCompleteJsonEnd buffer"
    using found lower [of 0 scanner_start buffer] by (simp add: findCompleteJsonEnd_def)
  moreover have "buffer \<noteq> []"
    using found by (auto simp: findCompleteJsonEnd_def)
  ultimately show
    "((E, processChunk E (take (nat (findCompleteJsonEnd buffer + 1)) buffer) False w,
       drop (nat (findCompleteJsonEnd buffer + 1)) buffer, processed + 1),
      (E, w, buffer, processed))
     \<in> measure (\<lambda>(E, w, buffer, processed). length buffer)"
    by simp
qed

definition processStreamingBuffer ::
  "env \<Rightarrow> jsstring \<Rightarrow> bool \<Rightarrow> layer_state \<Rightarrow> layer_state \<times> nat \<times> jsstring" where
  "processStreamingBuffer E buffer isFinal w = processStreamingBuffer_loop E w buffer 0"

section \<open>\<open>loadUrlStreaming\<close>\<close>

text \<open>
  The options of a load: \<open>chunkSize\<close>, and for each callback whether one was given.
  The callbacks themselves are the caller's; the model records every invocation with
  its argument and takes a callback to return without raising. The field \<open>percentage\<close>
  of a progress report, a rounded floating-point quotient, is left out.
\<close>

record options =
  chunkSize :: int
  progressCallback :: bool
  completeCallback :: bool
  errorCallback :: bool

record progress =
  loaded :: nat
  total :: int
  featureCount :: int

record load_result =
  totalFeatures :: int
  totalBytes :: nat
  loadedBytes :: "nat option"

datatype settlement = Resolved | Rejected error

datatype message =
    No_message
  | Failed_to_process_loaded_data
  | Fetch_fallback_failed
  | Failed_to_load_from_URL

text \<open>
  What every load operation has: the layer it works on, the invocations of
  \<open>completeCallback\<close> and \<open>errorCallback\<close> so far, and the state of the promise it
  returned (\<open>None\<close> while pending). \<open>resolve\<close> and \<open>reject\<close> settle a pending promise
  and do nothing to a settled one.
\<close>

record operation =
  layer :: layer_state
  completions :: "load_result list"
  error_reports :: "(error \<times> message) list"
  promise :: "settlement option"

definition settle :: "settlement \<Rightarrow> 'a operation_scheme \<Rightarrow> 'a operation_scheme" where
  "settle x s = (case promise s of None \<Rightarrow> s\<lparr>promise := Some x\<rparr> | Some y \<Rightarrow> s)"

text \<open>\<open>if (errorCallback) errorCallback(...)\<close>.\<close>

definition report ::
  "options \<Rightarrow> error \<times> message \<Rightarrow> 'a operation_scheme \<Rightarrow> 'a operation_scheme" where
  "report opts r s =
     (if errorCallback opts then s\<lparr>error_reports := error_reports s @ [r]\<rparr> else s)"

text \<open>
  The locals of the closure \<open>readChunk\<close> (1130-1132): \<open>buffer\<close>, \<open>totalBytes\<close>,
  \<open>loadedBytes\<close>, and the invocations of \<open>progressCallback\<close>.
\<close>

record streaming = operation +
  buffer :: jsstring
  var_totalBytes :: nat
  var_loadedBytes :: nat
  progress_reports :: "progress list"

text \<open>
  What \<open>reader.read()\<close> gives: a chunk of \<open>value.length\<close> bytes, here with the text
  \<open>decoder.decode(value, {stream: true})\<close> makes of it, or a rejection; the end of the list
  is \<open>done\<close>.
\<close>

datatype read_result = Value nat jsstring | Failure error

text \<open>
  \<open>String.prototype.trim\<close> removes the white space and line terminators of ECMAScript
  from both ends; \<open>slice_from start\<close> is \<open>slice(start)\<close> with its relative index.
\<close>

definition is_whitespace :: "code_unit \<Rightarrow> bool" where
  "is_whitespace c \<longleftrightarrow>
     c = 0x9 \<or> c = 0xA \<or> c = 0xB \<or> c = 0xC \<or> c = 0xD \<or> c = 0x20 \<or> c = 0xA0
     \<or> c = 0x1680 \<or> (0x2000 \<le> c \<and> c \<le> 0x200A) \<or> c = 0x2028 \<or> c = 0x2029
     \<or> c = 0x202F \<or> c = 0x205F \<or> c = 0x3000 \<or> c = 0xFEFF"

definition trim :: "jsstring \<Rightarrow> jsstring" where
  "trim s = rev (dropWhile is_whitespace (rev (dropWhile is_whitespace s)))"

definition slice_from :: "int \<Rightarrow> jsstring \<Rightarrow> jsstring" where
  "slice_from start s =
     (if start < 0 then drop (nat (max (int (length s) + start) 0)) s
      else drop (nat (min start (int (length s)))) s)"

text \<open>
  The branch of \<open>readChunk\<close> for a chunk (1159-1181), up to the recursive call. The
  object \<open>processStreamingBuffer\<close> returns is dropped by the caller: only the dispatches
  it made remain, and the closure's \<open>buffer\<close> keeps what it held.
\<close>

definition read_value ::
  "env \<Rightarrow> options \<Rightarrow> int option \<Rightarrow> nat \<Rightarrow> jsstring \<Rightarrow> streaming \<Rightarrow> streaming" where
  "read_value E opts totalSize n chunk s =
     (let s1 = s\<lparr>buffer := buffer s @ chunk,
                 var_loadedBytes := var_loadedBytes s + n,
                 var_totalBytes := var_totalBytes s + n\<rparr>;
          s2 = s1\<lparr>layer := fst (processStreamingBuffer E (buffer s1) False (layer s1))\<rparr>;
          s3 = (case totalSize of
                  Some t \<Rightarrow>
                    if progressCallback opts \<and> t \<noteq> 0 then
                      (case getFeatureCount E (layer s2) of
                         (c, w) \<Rightarrow>
                           s2\<lparr>layer := w,
                              progress_reports := progress_reports s2 @
                                [\<lparr>loaded = var_loadedBytes s2, total = t, featureCount = c\<rparr>]\<rparr>)
                    else s2
                | None \<Rightarrow> s2)
      in if int (length (buffer s3)) > chunkSize opts * 2
         then s3\<lparr>buffer := slice_from (- chunkSize opts) (buffer s3)\<rparr>
         else s3)"

text \<open>The branch for \<open>done\<close> (1141-1156).\<close>

definition read_done :: "env \<Rightarrow> options \<Rightarrow> streaming \<Rightarrow> streaming" where
  "read_done E opts s =
     (let s1 = (if trim (buffer s) \<noteq> []
                then s\<lparr>layer := processChunk E (buffer s) True (layer s)\<rparr>
                else s);
          s2 = (if completeCallback opts then
                  (case getFeatureCount E (layer s1) of
                     (c, w) \<Rightarrow>
                       s1\<lparr>layer := w,
                          completions := completions s1 @
                            [\<lparr>totalFeatures = c, totalBytes = var_totalBytes s1,
                              loadedBytes = Some (var_loadedBytes s1)\<rparr>]\<rparr>)
                else s1)
      in settle Resolved s2)"

text \<open>The \<open>catch\<close> handlers (1185-1190 and 1195-1200).\<close>

definition read_failed :: "options \<Rightarrow> error \<Rightarrow> streaming \<Rightarrow> streaming" where
  "read_failed opts e s = settle (Rejected e) (report opts (e, No_message) s)"

text \<open>The read loop: one read at a time, until \<open>done\<close> or a rejection.\<close>

fun readChunk ::
  "env \<Rightarrow> options \<Rightarrow> int option \<Rightarrow> read_result list \<Rightarrow> streaming \<Rightarrow> streaming" where
  "readChunk E opts totalSize [] s = read_done E opts s"
| "readChunk E opts totalSize (Value n chunk # rest) s =
     readChunk E opts totalSize rest (read_value E opts totalSize n chunk s)"
| "readChunk E opts totalSize (Failure e # rest) s = read_failed opts e s"

text \<open>
  \<open>loadUrlStreaming\<close> (1113-1202) on the answer of \<open>fetch\<close>: a rejection, or a response
  with its \<open>ok\<close> flag, the \<open>Content-Length\<close> it parsed (\<open>None\<close> when absent or not a
  number) and the reads of its body.
\<close>

datatype response = Fetch_rejected error | Response bool "int option" "read_result list"

definition streaming_start :: "layer_state \<Rightarrow> streaming" where
  "streaming_start w =
     \<lparr>layer = w, completions = [], error_reports = [], promise = None,
      buffer = [], var_totalBytes = 0, var_loadedBytes = 0, progress_reports = []\<rparr>"

definition loadUrlStreaming :: "env \<Rightarrow> options \<Rightarrow> response \<Rightarrow> layer_state \<Rightarrow> streaming" where
  "loadUrlStreaming E opts r w =
     (case r of
        Fetch_rejected e \<Rightarrow> read_failed opts e (streaming_start w)
      | Response ok totalSize reads \<Rightarrow>
          if \<not> ok then read_failed opts Http_error (streaming_start w)
          else readChunk E opts totalSize reads (streaming_start w))"

text \<open>
  Two layers with the same trace of engine calls and the same attachment; two runs of the
  read loop that agree on the trace, the buffer, the invocations of \<open>errorCallback\<close> and
  the promise. They may differ in what the engine answered.
\<close>

definition same_trace :: "layer_state \<Rightarrow> layer_state \<Rightarrow> bool" where
  "same_trace w w' \<longleftrightarrow>
     on_map w = on_map w' \<and> layerIndex w = layerIndex w' \<and> calls w = calls w'"

definition same_course :: "streaming \<Rightarrow> streaming \<Rightarrow> bool" where
  "same_course s s' \<longleftrightarrow>
     same_trace (layer s) (layer s') \<and> buffer s = buffer s'
     \<and> error_reports s = error_reports s' \<and> promise s = promise s'"

section \<open>\<open>loadFromUrl\<close>\<close>

text \<open>
  \<open>loadFromUrl\<close> (1502-1605) starts two paths and returns; everything else happens in
  callbacks, one at a time. The state they share: \<open>slot\<close> is the global
  \<open>window.rustyleafGeoJSONData\<close> (\<open>None\<close> when absent), \<open>state_done\<close> is \<open>state.done\<close>,
  \<open>check_scheduled\<close> says that a \<open>setTimeout(checkForData, 100)\<close> is waiting, and
  \<open>fetch_pending\<close> that the \<open>fetch\<close> has neither delivered nor failed.
\<close>

record loader = operation +
  slot :: "jsstring option"
  state_done :: bool
  startTime :: int
  check_scheduled :: bool
  fetch_pending :: bool

definition TIMEOUT_MS :: int where
  "TIMEOUT_MS = 30000"

text \<open>\<open>completeCallback({totalFeatures: this.getFeatureCount(), totalBytes: n})\<close>.\<close>

definition complete :: "env \<Rightarrow> options \<Rightarrow> nat \<Rightarrow> loader \<Rightarrow> loader" where
  "complete E opts n s =
     (if completeCallback opts then
        (case getFeatureCount E (layer s) of
           (c, w) \<Rightarrow>
             s\<lparr>layer := w,
                completions := completions s @
                  [\<lparr>totalFeatures = c, totalBytes = n, loadedBytes = None\<rparr>]\<rparr>)
      else s)"

text \<open>
  The synchronous part of \<open>loadFromUrl\<close>, called when \<open>Date.now()\<close> is \<open>now\<close> and the
  global holds \<open>slot0\<close>: the call of the engine's own retrieval, then the first
  \<open>setTimeout\<close> and the \<open>fetch\<close>; the outer \<open>catch\<close> when \<open>this.map\<close> is null or the
  engine raises.
\<close>

definition loadFromUrl ::
  "env \<Rightarrow> options \<Rightarrow> jsstring \<Rightarrow> int \<Rightarrow> jsstring option \<Rightarrow> layer_state \<Rightarrow> loader" where
  "loadFromUrl E opts url now slot0 w =
     (let s0 = \<lparr>layer = w, completions = [], error_reports = [], promise = None,
                slot = slot0, state_done = False, startTime = now,
                check_scheduled = False, fetch_pending = False\<rparr>
      in if \<not> on_map w then
           settle (Rejected No_map) (report opts (No_map, Failed_to_load_from_URL) s0)
         else
           (case wasm E (Load_geojson_from_url (layerIndex w) url) w of
              (Some e, w') \<Rightarrow>
                settle (Rejected e)
                  (report opts (e, Failed_to_load_from_URL) (s0\<lparr>layer := w'\<rparr>))
            | (None, w') \<Rightarrow>
                s0\<lparr>layer := w', check_scheduled := True, fetch_pending := True\<rparr>))"

text \<open>
  \<open>checkForData\<close> (1519-1564) running when \<open>Date.now()\<close> is \<open>now\<close>. It schedules itself
  again only in its last branch, when the global is absent or falsy.
\<close>

definition checkForData :: "env \<Rightarrow> options \<Rightarrow> int \<Rightarrow> loader \<Rightarrow> loader" where
  "checkForData E opts now s =
     (if now - startTime s > TIMEOUT_MS then
        (let s1 = s\<lparr>slot := None, check_scheduled := False\<rparr>
         in if \<not> state_done s1 then settle (Rejected Timed_out) s1 else s1)
      else
        (case slot s of
           None \<Rightarrow> s
         | Some d \<Rightarrow>
             if d = [] then s
             else if state_done s then s\<lparr>check_scheduled := False\<rparr>
             else
               (let s1 = s\<lparr>state_done := True, check_scheduled := False\<rparr>
                in case loadData E (Str d) (layer s1) of
                     (Some e, w) \<Rightarrow>
                       settle (Rejected e)
                         (report opts (e, Failed_to_process_loaded_data) (s1\<lparr>layer := w\<rparr>))
                   | (None, w) \<Rightarrow>
                       settle Resolved
                         (complete E opts (length d) (s1\<lparr>layer := w, slot := None\<rparr>)))))"

text \<open>The two handlers of the \<open>fetch\<close> (1575-1593).\<close>

definition fetch_then :: "env \<Rightarrow> options \<Rightarrow> jsstring \<Rightarrow> loader \<Rightarrow> loader" where
  "fetch_then E opts text s =
     (if state_done s then s
      else
        (let s1 = s\<lparr>state_done := True\<rparr>
         in case loadData E (Str text) (layer s1) of
              (Some e, w) \<Rightarrow> report opts (e, Fetch_fallback_failed) (s1\<lparr>layer := w\<rparr>)
            | (None, w) \<Rightarrow> settle Resolved (complete E opts (length text) (s1\<lparr>layer := w\<rparr>))))"

definition fetch_catch :: "options \<Rightarrow> error \<Rightarrow> loader \<Rightarrow> loader" where
  "fetch_catch opts e s = report opts (e, Fetch_fallback_failed) s"

text \<open>
  What can happen after \<open>loadFromUrl\<close> has returned: the scheduled check fires at some
  time, the engine writes a payload into the global, the \<open>fetch\<close> delivers the text of
  an ok response, or the \<open>fetch\<close> fails (a rejection, or a response that is not ok).
  A check that is not scheduled does not fire, and the \<open>fetch\<close> answers once.
\<close>

datatype event =
    Timer int
  | Handoff jsstring
  | Fetch_text jsstring
  | Fetch_error error

fun step :: "env \<Rightarrow> options \<Rightarrow> loader \<Rightarrow> event \<Rightarrow> loader" where
  "step E opts s (Timer now) =
     (if check_scheduled s then checkForData E opts now s else s)"
| "step E opts s (Handoff d) = s\<lparr>slot := Some d\<rparr>"
| "step E opts s (Fetch_text text) =
     (if fetch_pending s then fetch_then E opts text (s\<lparr>fetch_pending := False\<rparr>) else s)"
| "step E opts s (Fetch_error e) =
     (if fetch_pending s then fetch_catch opts e (s\<lparr>fetch_pending := False\<rparr>) else s)"

definition run :: "env \<Rightarrow> options \<Rightarrow> loader \<Rightarrow> event list \<Rightarrow> loader" where
  "run E opts s evs = foldl (step E opts) s evs"

text \<open>
  While neither path has set \<open>state.done\<close>, an operation started at \<open>t0\<close> has its next
  check scheduled and its promise pending. \<open>polls n\<close> are the checks of an otherwise idle
  page, one every 100 ms.
\<close>

definition polling :: "int \<Rightarrow> loader \<Rightarrow> bool" where
  "polling t0 s \<longleftrightarrow>
     (\<not> state_done s \<longrightarrow> check_scheduled s \<and> promise s = None) \<and> startTime s = t0"

definition polls :: "nat \<Rightarrow> event list" where
  "polls n = map (\<lambda>k. Timer (100 * int k)) [1..<Suc n]"

section \<open>An engine, a layer and options to evaluate with\<close>

text \<open>
  \<open>accepting\<close> never raises and counts the chunks it was given; \<open>rejecting\<close> raises on
  every chunk. \<open>attached_layer\<close> is a new layer without data after \<open>addTo\<close>.
\<close>

definition accepting :: env where
  "accepting =
     \<lparr>throws = (\<lambda>cs c. False),
      feature_count = (\<lambda>cs k. int (length (filter is_chunk cs))),
      JSON_parse = (\<lambda>t. Some (Other True (Json t)))\<rparr>"

definition rejecting :: env where
  "rejecting = accepting\<lparr>throws := (\<lambda>cs c. is_chunk c)\<rparr>"

definition attached_layer :: layer_state where
  "attached_layer = snd (addTo accepting (new_layer null))"

definition all_callbacks :: "int \<Rightarrow> options" where
  "all_callbacks n =
     \<lparr>chunkSize = n, progressCallback = True, completeCallback = True, errorCallback = True\<rparr>"

section \<open>Properties of the boundary scanner\<close>

lemma loop_body_Return_iff:
  "loop_body v c = Return \<longleftrightarrow>
     \<not> escape v \<and> \<not> inString v \<and> c = 0x7D \<and> braceCount v = 1"
  by (auto simp: loop_body_def)

lemma returns_at_0 [simp]: "returns_at v (c # cs) 0 \<longleftrightarrow> loop_body v c = Return"
  by (simp add: returns_at_def)

lemma returns_at_Suc [simp]:
  "returns_at v (c # cs) (Suc k) \<longleftrightarrow> returns_at (assignments v c) cs k"
  by (simp add: returns_at_def)

text \<open>The loop either runs off the end, no iteration returning, or stops at the first
  iteration that returns.\<close>

lemma scan_loop_cases:
  "(scan_loop i v s = - 1 \<and> (\<forall>k<length s. \<not> returns_at v s k)) \<or>
   (\<exists>k<length s. scan_loop i v s = int (i + k) \<and> returns_at v s k
        \<and> (\<forall>j<k. \<not> returns_at v s j))"
proof (induction s arbitrary: i v)
  case Nil
  show ?case by simp
next
  case (Cons c cs)
  show ?case
  proof (cases "loop_body v c")
    case Return
    then have "scan_loop i v (c # cs) = int (i + 0)" "returns_at v (c # cs) 0"
      by simp_all
    then show ?thesis by blast
  next
    case (Next v')
    then have a: "assignments v c = v'"
      and s: "scan_loop i v (c # cs) = scan_loop (Suc i) v' cs"
      by (simp_all add: assignments_def)
    have n0: "\<not> returns_at v (c # cs) 0" using Next by simp
    from Cons.IH [of "Suc i" v'] show ?thesis
    proof
      assume h: "scan_loop (Suc i) v' cs = - 1 \<and> (\<forall>k<length cs. \<not> returns_at v' cs k)"
      have "\<forall>k<length (c # cs). \<not> returns_at v (c # cs) k"
      proof (intro allI impI)
        fix k assume "k < length (c # cs)"
        then show "\<not> returns_at v (c # cs) k"
          using h n0 a by (cases k) auto
      qed
      with h s show ?thesis by simp
    next
      assume "\<exists>k<length cs. scan_loop (Suc i) v' cs = int (Suc i + k)
        \<and> returns_at v' cs k \<and> (\<forall>j<k. \<not> returns_at v' cs j)"
      then obtain k where k: "k < length cs" "scan_loop (Suc i) v' cs = int (Suc i + k)"
        "returns_at v' cs k" "\<forall>j<k. \<not> returns_at v' cs j" by blast
      have "\<forall>j<Suc k. \<not> returns_at v (c # cs) j"
      proof (intro allI impI)
        fix j assume "j < Suc k"
        then show "\<not> returns_at v (c # cs) j"
          using k(4) n0 a by (cases j) auto
      qed
      moreover have "Suc k < length (c # cs)" using k(1) by simp
      moreover have "scan_loop i v (c # cs) = int (i + Suc k)" using s k(2) by simp
      moreover have "returns_at v (c # cs) (Suc k)" using k(3) a by simp
      ultimately show ?thesis by blast
    qed
  qed
qed

lemma returns_at_closes:
  assumes "i < length s"
  shows "returns_at scanner_start s i \<longleftrightarrow> closes_at s i"
proof -
  have t: "take (Suc i) s = take i s @ [s ! i]"
    using assms by (simp add: take_Suc_conv_app_nth)
  show ?thesis
    unfolding returns_at_def closes_at_def vars_at_def t
    by (auto simp: loop_body_Return_iff assignments_def loop_body_def)
qed

lemma find_not_found_iff:
  "findCompleteJsonEnd s = - 1 \<longleftrightarrow> (\<forall>j<length s. \<not> closes_at s j)"
  using scan_loop_cases [of 0 scanner_start s]
  by (auto simp: findCompleteJsonEnd_def returns_at_closes)

lemma find_first_closing:
  "findCompleteJsonEnd s = - 1 \<or>
   (\<exists>k<length s. findCompleteJsonEnd s = int k \<and> closes_at s k \<and> (\<forall>j<k. \<not> closes_at s j))"
  using scan_loop_cases [of 0 scanner_start s]
  by (auto simp: findCompleteJsonEnd_def returns_at_closes)

lemma find_index_iff:
  "findCompleteJsonEnd s = int i \<longleftrightarrow>
     i < length s \<and> closes_at s i \<and> (\<forall>j<i. \<not> closes_at s j)"
proof (cases "findCompleteJsonEnd s = - 1")
  case True
  then show ?thesis using find_not_found_iff [of s] by auto
next
  case False
  with find_first_closing [of s] obtain k where k: "k < length s"
    "findCompleteJsonEnd s = int k" "closes_at s k" "\<forall>j<k. \<not> closes_at s j"
    by blast
  show ?thesis
  proof
    assume "findCompleteJsonEnd s = int i"
    with k show "i < length s \<and> closes_at s i \<and> (\<forall>j<i. \<not> closes_at s j)" by simp
  next
    assume r: "i < length s \<and> closes_at s i \<and> (\<forall>j<i. \<not> closes_at s j)"
    have "\<not> i < k" using r k(4) by blast
    moreover have "\<not> k < i" using r k(3) by blast
    ultimately show "findCompleteJsonEnd s = int i" using k(2) by simp
  qed
qed

lemma find_range:
  "findCompleteJsonEnd s = - 1 \<or>
   (0 \<le> findCompleteJsonEnd s \<and> findCompleteJsonEnd s < int (length s))"
  using find_first_closing [of s] by auto

lemmas scanner_eval =
  findCompleteJsonEnd_def js_def loop_body_def scanner_start_def vars_at_def
  assignments_def closes_at_def

text \<open>
  C5 (as the code has it). The three reference inputs give 6, 11 and not-found (\<open>- 1\<close>).
  In general the scanner is one forward pass over \<open>braceCount\<close>, \<open>inString\<close> and
  \<open>escape\<close>: it returns \<open>i\<close> exactly when \<open>i\<close> is the first index holding a closing brace,
  read outside a string and not escaped, that brings \<open>braceCount\<close> to zero; it returns
  \<open>- 1\<close> exactly when the string has no such index; and it returns nothing else. An opening
  brace that brings a negative \<open>braceCount\<close> back up to zero is not a boundary.
\<close>

theorem scanner_reference_behaviour:
  \<open>findCompleteJsonEnd (js ''{"a":1}'') = 6
   \<and> findCompleteJsonEnd (js ''{"a":"b{c}"}'') = 11
   \<and> findCompleteJsonEnd (js ''{"a":'') = - 1
   \<and> (findCompleteJsonEnd s = int i \<longleftrightarrow>
        i < length s \<and> closes_at s i \<and> (\<forall>j<i. \<not> closes_at s j))
   \<and> (findCompleteJsonEnd s = - 1 \<longleftrightarrow> (\<forall>j<length s. \<not> closes_at s j))
   \<and> (findCompleteJsonEnd s = - 1 \<or>
        (0 \<le> findCompleteJsonEnd s \<and> findCompleteJsonEnd s < int (length s)))\<close>
proof -
  have a: \<open>findCompleteJsonEnd (js ''{"a":1}'') = 6\<close>
    by (simp add: findCompleteJsonEnd_def js_def loop_body_def scanner_start_def)
  have b: \<open>findCompleteJsonEnd (js ''{"a":"b{c}"}'') = 11\<close>
    by (simp add: findCompleteJsonEnd_def js_def loop_body_def scanner_start_def)
  have c: \<open>findCompleteJsonEnd (js ''{"a":'') = - 1\<close>
    by (simp add: findCompleteJsonEnd_def js_def loop_body_def scanner_start_def)
  show ?thesis
    using a b c find_index_iff [of s i] find_not_found_iff [of s] find_range [of s]
    by (intro conjI) assumption+
qed

theorem scanner_reference_behaviour_witness:
  \<open>findCompleteJsonEnd (js ''{"a":1}'') = 6 \<and> closes_at (js ''{"a":1}'') 6\<close>
proof -
  have e: \<open>findCompleteJsonEnd (js ''{"a":1}'') = int 6\<close>
    by (simp add: findCompleteJsonEnd_def js_def loop_body_def scanner_start_def)
  have \<open>findCompleteJsonEnd (js ''{"a":1}'') = int 6 \<longleftrightarrow>
        6 < length (js ''{"a":1}'') \<and> closes_at (js ''{"a":1}'') 6
        \<and> (\<forall>j<6. \<not> closes_at (js ''{"a":1}'') j)\<close>
    using scanner_reference_behaviour [of \<open>js ''{"a":1}''\<close> 6] by blast
  with e show ?thesis by simp
qed

text \<open>
  C5 as stated fails on \<open>}{}\<close>: \<open>braceCount\<close> leaves zero at index 0 (it is \<open>- 1\<close> after
  the first character) and is back at zero after the character at index 1, yet the scanner
  reports not-found, because it tests for zero only after a decrement.
\<close>

theorem scanner_depth_back_at_zero_counterexample:
  "braceCount (vars_at (js ''}{}'') 1) = - 1
   \<and> braceCount (vars_at (js ''}{}'') 2) = 0
   \<and> findCompleteJsonEnd (js ''}{}'') = - 1"
  by (simp add: scanner_eval)

text \<open>
  C6. Whenever the scanner returns an index rather than \<open>- 1\<close>, \<open>inString\<close> and \<open>escape\<close>
  are both false at that index: when its iteration starts (the character is not inside an
  open string and does not follow an unresolved backslash) and when it ends.
\<close>

theorem scanner_returns_outside_string_and_escape:
  "findCompleteJsonEnd s \<noteq> - 1 \<Longrightarrow>
     \<not> inString (vars_at s (nat (findCompleteJsonEnd s)))
     \<and> \<not> escape (vars_at s (nat (findCompleteJsonEnd s)))
     \<and> \<not> inString (vars_at s (Suc (nat (findCompleteJsonEnd s))))
     \<and> \<not> escape (vars_at s (Suc (nat (findCompleteJsonEnd s))))"
proof -
  assume "findCompleteJsonEnd s \<noteq> - 1"
  with find_first_closing [of s] obtain k where k: "k < length s"
    "findCompleteJsonEnd s = int k" "closes_at s k" by blast
  have t: "take (Suc k) s = take k s @ [s ! k]"
    using k(1) by (simp add: take_Suc_conv_app_nth)
  have before: "\<not> inString (vars_at s k)" "\<not> escape (vars_at s k)" "s ! k = 0x7D"
    using k(3) by (simp_all add: closes_at_def)
  have after: "vars_at s (Suc k) = assignments (vars_at s k) (s ! k)"
    by (simp add: vars_at_def t)
  have "\<not> inString (vars_at s (Suc k))" "\<not> escape (vars_at s (Suc k))"
    using before unfolding after by (simp_all add: assignments_def loop_body_def)
  with before k(2) show ?thesis by simp
qed

theorem scanner_returns_outside_string_and_escape_witness:
  \<open>findCompleteJsonEnd (js ''{"a":"b{c}"}'') \<noteq> - 1
   \<and> \<not> inString (vars_at (js ''{"a":"b{c}"}'') 11)
   \<and> \<not> escape (vars_at (js ''{"a":"b{c}"}'') 11)\<close>
proof -
  have e: \<open>findCompleteJsonEnd (js ''{"a":"b{c}"}'') = 11\<close>
    by (simp add: findCompleteJsonEnd_def js_def loop_body_def scanner_start_def)
  then have \<open>findCompleteJsonEnd (js ''{"a":"b{c}"}'') \<noteq> - 1\<close> by simp
  from scanner_returns_outside_string_and_escape [OF this] e show ?thesis by simp
qed

section \<open>Properties of the streaming read loop\<close>

lemma buffer_read_value:
  "buffer (read_value E opts totalSize n chunk s) =
     (if int (length (buffer s @ chunk)) > chunkSize opts * 2
      then slice_from (- chunkSize opts) (buffer s @ chunk) else buffer s @ chunk)"
  by (simp add: read_value_def Let_def split: option.splits prod.splits)

lemma all_dropWhile:
  "(\<forall>x\<in>set (dropWhile P xs). P x) \<longleftrightarrow> (\<forall>x\<in>set xs. P x)"
proof
  assume a: "\<forall>x\<in>set (dropWhile P xs). P x"
  have "dropWhile P xs = []"
  proof (rule ccontr)
    assume n: "dropWhile P xs \<noteq> []"
    then have "\<not> P (hd (dropWhile P xs))" by (rule hd_dropWhile)
    moreover have "hd (dropWhile P xs) \<in> set (dropWhile P xs)" using n by simp
    ultimately show False using a by blast
  qed
  then show "\<forall>x\<in>set xs. P x" by (simp add: dropWhile_eq_Nil_conv)
next
  assume "\<forall>x\<in>set xs. P x"
  then show "\<forall>x\<in>set (dropWhile P xs). P x" by (meson set_dropWhileD)
qed

lemma trim_empty_iff: "trim s = [] \<longleftrightarrow> (\<forall>c\<in>set s. is_whitespace c)"
proof -
  have "trim s = [] \<longleftrightarrow> (\<forall>x\<in>set (rev (dropWhile is_whitespace s)). is_whitespace x)"
    by (simp add: trim_def dropWhile_eq_Nil_conv)
  also have "\<dots> \<longleftrightarrow> (\<forall>x\<in>set (dropWhile is_whitespace s). is_whitespace x)" by simp
  also have "\<dots> \<longleftrightarrow> (\<forall>c\<in>set s. is_whitespace c)" by (rule all_dropWhile)
  finally show ?thesis .
qed

lemma dispatched_processChunk:
  "dispatched (processChunk E chunk f w) =
     dispatched w @ (case layerIndex w of
                       Some k \<Rightarrow> if on_map w then [Load_geojson_chunk k chunk f] else []
                     | None \<Rightarrow> [])"
  by (simp add: dispatched_def processChunk_def wasm_def split: option.splits)

lemma dispatched_getFeatureCount:
  "dispatched (snd (getFeatureCount E w)) = dispatched w"
  by (simp add: dispatched_def getFeatureCount_def wasm_def split: option.splits)

lemma settle_fields [simp]:
  "layer (settle x s) = layer s"
  "completions (settle x s) = completions s"
  "error_reports (settle x s) = error_reports s"
  "promise (settle x s) = (case promise s of None \<Rightarrow> Some x | Some y \<Rightarrow> Some y)"
  by (simp_all add: settle_def split: option.splits)

text \<open>
  C9 (as the code has it). For a \<open>chunkSize\<close> of at least 1: after the absorb pass of a
  read-loop iteration the buffer is the old buffer with the chunk appended; when that is
  longer than twice \<open>chunkSize\<close> the iteration leaves exactly its last \<open>chunkSize\<close>
  characters, otherwise it leaves it as it is; so the buffer is at most \<open>2 * chunkSize\<close>
  long when the iteration ends.
\<close>

theorem backpressure_trim:
  assumes "0 < chunkSize opts"
  shows "buffer (read_value E opts totalSize n chunk s) =
      (if int (length (buffer s @ chunk)) > 2 * chunkSize opts
       then drop (length (buffer s @ chunk) - nat (chunkSize opts)) (buffer s @ chunk)
       else buffer s @ chunk)
    \<and> int (length (buffer (read_value E opts totalSize n chunk s))) \<le> 2 * chunkSize opts
    \<and> (int (length (buffer s @ chunk)) > 2 * chunkSize opts \<longrightarrow>
         int (length (buffer (read_value E opts totalSize n chunk s))) = chunkSize opts)"
proof -
  define b where "b = buffer s @ chunk"
  define cs where "cs = chunkSize opts"
  have pos: "0 < cs" using assms by (simp add: cs_def)
  have "nat (max (int (length b) + - cs) 0) = length b - nat cs"
    using pos by (simp add: max_def) arith
  then have sl: "slice_from (- cs) b = drop (length b - nat cs) b"
    using pos by (simp add: slice_from_def)
  have r: "buffer (read_value E opts totalSize n chunk s) =
      (if int (length b) > cs * 2 then drop (length b - nat cs) b else b)"
    unfolding buffer_read_value b_def [symmetric] cs_def [symmetric] sl by (rule refl)
  have len: "int (length b) > cs * 2 \<Longrightarrow> int (length (drop (length b - nat cs) b)) = cs"
    using pos by simp
  show ?thesis
  proof (cases "int (length b) > cs * 2")
    case True
    with len have "int (length (drop (length b - nat cs) b)) = cs" by blast
    with True pos show ?thesis
      unfolding b_def [symmetric] cs_def [symmetric] r by simp
  next
    case False
    then show ?thesis
      unfolding b_def [symmetric] cs_def [symmetric] r by simp
  qed
qed

theorem backpressure_trim_witness:
  "0 < chunkSize (all_callbacks 2)
   \<and> buffer (read_value accepting (all_callbacks 2) None 5 (js ''abcde'')
                (streaming_start attached_layer)) = js ''de''"
proof -
  have p: "0 < chunkSize (all_callbacks 2)" by (simp add: all_callbacks_def)
  have b: "buffer (streaming_start attached_layer) @ js ''abcde'' = js ''abcde''"
    by (simp add: streaming_start_def)
  have l: "length (js ''abcde'') = 5" "drop 3 (js ''abcde'') = js ''de''"
    by (simp_all add: js_def)
  from backpressure_trim [OF p, of accepting None 5 "js ''abcde''" "streaming_start attached_layer"]
  show ?thesis unfolding b using p l by (simp add: all_callbacks_def)
qed

text \<open>
  C9 as stated, for every configured \<open>chunkSize\<close>, fails at \<open>chunkSize = 0\<close>:
  \<open>slice(-0)\<close> is \<open>slice(0)\<close>, the whole buffer, so the two characters read stay in the
  buffer, which is then longer than \<open>2 * chunkSize\<close> and is not its last 0 characters.
\<close>

theorem backpressure_trim_chunkSize_zero_counterexample:
  "chunkSize (all_callbacks 0) = 0
   \<and> buffer (read_value accepting (all_callbacks 0) None 2 (js ''ab'')
                (streaming_start attached_layer)) = js ''ab''"
  by code_simp

text \<open>
  C10. When the stream ends, the buffer is dispatched as a final record
  (\<open>isFinal = true\<close>) only if it holds a character that is not white space, and then once,
  to an attached layer; an empty or white-space-only buffer is dropped without a dispatch.
  In both cases \<open>completeCallback\<close>, when one was given, is invoked exactly once, with the
  feature count read after the flush and the accumulated \<open>totalBytes\<close> and \<open>loadedBytes\<close>;
  \<open>errorCallback\<close> is not invoked and the pending promise is resolved.
\<close>

theorem final_flush_whitespace_guard:
  "dispatched (layer (read_done E opts s)) =
     dispatched (layer s) @
       (if \<exists>c\<in>set (buffer s). \<not> is_whitespace c then
          (case layerIndex (layer s) of
             Some k \<Rightarrow> if on_map (layer s) then [Load_geojson_chunk k (buffer s) True] else []
           | None \<Rightarrow> [])
        else [])
   \<and> completions (read_done E opts s) =
       completions s @
         (if completeCallback opts then
            [\<lparr>totalFeatures =
                 fst (getFeatureCount E
                        (if \<exists>c\<in>set (buffer s). \<not> is_whitespace c
                         then processChunk E (buffer s) True (layer s) else layer s)),
               totalBytes = var_totalBytes s,
               loadedBytes = Some (var_loadedBytes s)\<rparr>]
          else [])
   \<and> error_reports (read_done E opts s) = error_reports s
   \<and> (promise s = None \<longrightarrow> promise (read_done E opts s) = Some Resolved)"
proof -
  have t: "(\<exists>c\<in>set (buffer s). \<not> is_whitespace c) \<longleftrightarrow> trim (buffer s) \<noteq> []"
    by (simp add: trim_empty_iff)
  show ?thesis
  proof (cases "trim (buffer s) = []")
    case True
    then show ?thesis
      unfolding t
      by (cases "completeCallback opts")
         (simp_all add: read_done_def Let_def case_prod_beta dispatched_getFeatureCount)
  next
    case False
    then show ?thesis
      unfolding t
      by (cases "completeCallback opts")
         (simp_all add: read_done_def Let_def case_prod_beta dispatched_getFeatureCount
            dispatched_processChunk)
  qed
qed

theorem final_flush_whitespace_guard_witness:
  \<open>dispatched (layer (read_done accepting (all_callbacks 8)
       ((streaming_start attached_layer)\<lparr>buffer := js ''{"a":''\<rparr>)))
     = [Load_geojson_chunk 0 (js ''{"a":'') True]
   \<and> promise (read_done accepting (all_callbacks 8)
       ((streaming_start attached_layer)\<lparr>buffer := js ''{"a":''\<rparr>)) = Some Resolved\<close>
proof -
  let ?s = \<open>(streaming_start attached_layer)\<lparr>buffer := js ''{"a":''\<rparr>\<close>
  have a: "\<exists>c\<in>set (buffer ?s). \<not> is_whitespace c" by code_simp
  have b: "layerIndex (layer ?s) = Some 0" "on_map (layer ?s)" "dispatched (layer ?s) = []"
    "promise ?s = None" \<open>buffer ?s = js ''{"a":''\<close>
    by code_simp+
  from final_flush_whitespace_guard [of accepting "all_callbacks 8" ?s] a b show ?thesis by simp
qed

text \<open>
  C1 does not hold of the read loop. \<open>processStreamingBuffer\<close> itself slices
  \<open>{"a":1}{"b":2}\<close> into two records and returns an empty \<open>remaining\<close>, but
  \<open>readChunk\<close> drops the returned object, so its own buffer still holds the whole text
  after the pass. Fed the same document as two fragments, the loop rescans the buffer from
  its start: the first record is dispatched twice, and at the end of the stream the whole
  document is dispatched once more as the final record. Besides, a record that follows
  white space is sliced off together with that white space.
\<close>

theorem read_loop_dispatches_a_record_again:
  \<open>snd (processStreamingBuffer accepting (js ''{"a":1}{"b":2}'') False attached_layer) = (2, [])
   \<and> buffer (read_value accepting (all_callbacks 1048576) None 14 (js ''{"a":1}{"b":2}'')
         (streaming_start attached_layer)) = js ''{"a":1}{"b":2}''
   \<and> dispatched (layer (loadUrlStreaming accepting (all_callbacks 1048576)
         (Response True None [Value 7 (js ''{"a":1}''), Value 7 (js ''{"b":2}'')])
         attached_layer))
       = [Load_geojson_chunk 0 (js ''{"a":1}'') False,
          Load_geojson_chunk 0 (js ''{"a":1}'') False,
          Load_geojson_chunk 0 (js ''{"b":2}'') False,
          Load_geojson_chunk 0 (js ''{"a":1}{"b":2}'') True]
   \<and> dispatched (fst (processStreamingBuffer accepting (js ''{"a":1} {"b":2}'') False
         attached_layer))
       = [Load_geojson_chunk 0 (js ''{"a":1}'') False,
          Load_geojson_chunk 0 (js '' {"b":2}'') False]\<close>
  by code_simp

lemma same_trace_processChunk:
  "same_trace w w' \<Longrightarrow> same_trace (processChunk E c f w) (processChunk E' c f w')"
  by (auto simp: same_trace_def processChunk_def wasm_def split: option.splits)

lemma same_trace_getFeatureCount:
  "same_trace w w' \<Longrightarrow> same_trace (snd (getFeatureCount E w)) (snd (getFeatureCount E' w'))"
  by (auto simp: same_trace_def getFeatureCount_def wasm_def split: option.splits)

lemma same_trace_loop:
  "same_trace w w' \<Longrightarrow>
   same_trace (fst (processStreamingBuffer_loop E w b n))
              (fst (processStreamingBuffer_loop E' w' b n))"
proof (induction E w b n arbitrary: w' rule: processStreamingBuffer_loop.induct)
  case (1 E w buffer processed)
  show ?case
  proof (cases "findCompleteJsonEnd buffer = - 1")
    case True
    with "1.prems" show ?thesis by simp
  next
    case False
    let ?t = "take (nat (findCompleteJsonEnd buffer + 1)) buffer"
    have "same_trace (processChunk E ?t False w) (processChunk E' ?t False w')"
      using "1.prems" by (rule same_trace_processChunk)
    from "1.IH" [OF False this] False show ?thesis by simp
  qed
qed

lemma same_course_read_value:
  assumes "same_course s s'"
  shows "same_course (read_value E opts ts n chunk s) (read_value E' opts ts n chunk s')"
proof -
  have b: "buffer s = buffer s'" and l: "same_trace (layer s) (layer s')"
    and e: "error_reports s = error_reports s'" and p: "promise s = promise s'"
    using assms by (simp_all add: same_course_def)
  let ?w = "fst (processStreamingBuffer E (buffer s @ chunk) False (layer s))"
  let ?w' = "fst (processStreamingBuffer E' (buffer s' @ chunk) False (layer s'))"
  have w: "same_trace ?w ?w'"
    unfolding processStreamingBuffer_def b using l by (rule same_trace_loop)
  have g: "same_trace (snd (getFeatureCount E ?w)) (snd (getFeatureCount E' ?w'))"
    using w by (rule same_trace_getFeatureCount)
  show ?thesis
    using b e p w g
    by (simp add: same_course_def read_value_def Let_def case_prod_beta split: option.splits)
qed

lemma same_course_read_done:
  assumes "same_course s s'"
  shows "same_course (read_done E opts s) (read_done E' opts s')"
proof -
  have b: "buffer s = buffer s'" and l: "same_trace (layer s) (layer s')"
    and e: "error_reports s = error_reports s'" and p: "promise s = promise s'"
    using assms by (simp_all add: same_course_def)
  have c: "same_trace (processChunk E (buffer s) True (layer s))
                      (processChunk E' (buffer s') True (layer s'))"
    unfolding b using l by (rule same_trace_processChunk)
  note g1 = same_trace_getFeatureCount [OF c, of E E'] 
  note g2 = same_trace_getFeatureCount [OF l, of E E']
  show ?thesis
    using b e p l c g1 g2
    by (simp add: same_course_def read_done_def Let_def case_prod_beta settle_def
             split: option.splits)
qed

lemma same_course_read_failed:
  "same_course s s' \<Longrightarrow> same_course (read_failed opts e s) (read_failed opts e s')"
  by (simp add: same_course_def read_failed_def report_def settle_def split: option.splits)

lemma same_course_readChunk:
  "same_course s s' \<Longrightarrow>
   same_course (readChunk E opts ts rs s) (readChunk E' opts ts rs s')"
proof (induction rs arbitrary: s s')
  case Nil
  then show ?case by (simp add: same_course_read_done)
next
  case (Cons r rs)
  show ?case
  proof (cases r)
    case (Value n chunk)
    from Cons.IH [OF same_course_read_value [OF Cons.prems]] Value show ?thesis by simp
  next
    case (Failure e)
    with Cons.prems show ?thesis by (simp add: same_course_read_failed)
  qed
qed

lemma read_value_keeps:
  "error_reports (read_value E opts ts n chunk s) = error_reports s"
  "promise (read_value E opts ts n chunk s) = promise s"
  by (simp_all add: read_value_def Let_def case_prod_beta split: option.splits)

lemma readChunk_no_failure:
  "\<forall>r\<in>set rs. \<forall>e. r \<noteq> Failure e \<Longrightarrow>
   error_reports (readChunk E opts ts rs s) = error_reports s
   \<and> (promise s = None \<longrightarrow> promise (readChunk E opts ts rs s) = Some Resolved)"
proof (induction rs arbitrary: s)
  case Nil
  show ?case
    by (simp add: read_done_def Let_def case_prod_beta settle_def split: option.splits)
next
  case (Cons r rs)
  then obtain n chunk where r: "r = Value n chunk" by (cases r) auto
  from Cons have "\<forall>r\<in>set rs. \<forall>e. r \<noteq> Failure e" by simp
  from Cons.IH [OF this, of "read_value E opts ts n chunk s"] r show ?case
    by (simp add: read_value_keeps)
qed

text \<open>
  C7 (as the code has it). When the engine raises on a record, \<open>processChunk\<close> catches
  the exception at that record and writes a \<open>console.warn\<close> line; \<open>errorCallback\<close> is not
  invoked for it. The stream is not aborted: whatever the engine rejects, the read loop
  makes the same engine calls, the same \<open>errorCallback\<close> invocations and the same
  settlement as with any other engine, and when no read fails it invokes no
  \<open>errorCallback\<close> and resolves.
\<close>

theorem consumer_rejection_is_local:
  "(on_map w \<and> layerIndex w = Some k \<and> throws E (calls w) (Load_geojson_chunk k chunk f) \<longrightarrow>
      processChunk E chunk f w =
        w\<lparr>calls := calls w @ [Load_geojson_chunk k chunk f],
          warnings := warnings w @
            [Failed_to_process_chunk (Thrown_by_engine (Load_geojson_chunk k chunk f))]\<rparr>)
   \<and> calls (layer (readChunk E opts ts rs s)) = calls (layer (readChunk E' opts ts rs s))
   \<and> error_reports (readChunk E opts ts rs s) = error_reports (readChunk E' opts ts rs s)
   \<and> promise (readChunk E opts ts rs s) = promise (readChunk E' opts ts rs s)
   \<and> ((\<forall>r\<in>set rs. \<forall>e. r \<noteq> Failure e) \<longrightarrow>
        error_reports (readChunk E opts ts rs s) = error_reports s
        \<and> (promise s = None \<longrightarrow> promise (readChunk E opts ts rs s) = Some Resolved))"
proof -
  have A: "on_map w \<and> layerIndex w = Some k \<and> throws E (calls w) (Load_geojson_chunk k chunk f) \<longrightarrow>
      processChunk E chunk f w =
        w\<lparr>calls := calls w @ [Load_geojson_chunk k chunk f],
          warnings := warnings w @
            [Failed_to_process_chunk (Thrown_by_engine (Load_geojson_chunk k chunk f))]\<rparr>"
    by (simp add: processChunk_def wasm_def)
  have "same_course s s" by (simp add: same_course_def same_trace_def)
  then have "same_course (readChunk E opts ts rs s) (readChunk E' opts ts rs s)"
    by (rule same_course_readChunk)
  then have B: "calls (layer (readChunk E opts ts rs s)) = calls (layer (readChunk E' opts ts rs s))"
    "error_reports (readChunk E opts ts rs s) = error_reports (readChunk E' opts ts rs s)"
    "promise (readChunk E opts ts rs s) = promise (readChunk E' opts ts rs s)"
    by (simp_all add: same_course_def same_trace_def)
  show ?thesis using A B readChunk_no_failure [of rs E opts ts s] by blast
qed

theorem consumer_rejection_is_local_witness:
  \<open>throws rejecting (calls attached_layer) (Load_geojson_chunk 0 (js ''{"a":1}'') False)
   \<and> warnings (processChunk rejecting (js ''{"a":1}'') False attached_layer) =
       [Failed_to_process_chunk (Thrown_by_engine (Load_geojson_chunk 0 (js ''{"a":1}'') False))]
   \<and> promise (readChunk rejecting (all_callbacks 1048576) None [Value 7 (js ''{"a":1}'')]
         (streaming_start attached_layer)) = Some Resolved\<close>
proof -
  let ?c = \<open>js ''{"a":1}''\<close>
  have h: "on_map attached_layer" "layerIndex attached_layer = Some 0"
    "throws rejecting (calls attached_layer) (Load_geojson_chunk 0 ?c False)"
    "warnings attached_layer = []"
    by code_simp+
  have r: "\<forall>r\<in>set [Value 7 ?c]. \<forall>e. r \<noteq> Failure e" by simp
  have p: "promise (streaming_start attached_layer) = None"
    by (simp add: streaming_start_def)
  from consumer_rejection_is_local [of attached_layer 0 rejecting ?c False
      "all_callbacks 1048576" None "[Value 7 ?c]" "streaming_start attached_layer"] h r p
  show ?thesis by simp
qed

text \<open>
  C7 as stated fails where it says the rejection is reported through \<open>onError\<close>: with an
  \<open>errorCallback\<close> given and an engine that raises on every record, the rejections end
  up in \<open>console.warn\<close> and \<open>errorCallback\<close> is never invoked.
\<close>

theorem consumer_rejection_not_reported_counterexample:
  \<open>errorCallback (all_callbacks 1048576)
  \<and> error_reports (readChunk rejecting (all_callbacks 1048576) None [Value 7 (js ''{"a":1}'')]
        (streaming_start attached_layer)) = []
  \<and> warnings (layer (readChunk rejecting (all_callbacks 1048576) None [Value 7 (js ''{"a":1}'')]
        (streaming_start attached_layer))) =
      [Failed_to_process_chunk (Thrown_by_engine (Load_geojson_chunk 0 (js ''{"a":1}'') False)),
       Failed_to_process_chunk (Thrown_by_engine (Load_geojson_chunk 0 (js ''{"a":1}'') True))]\<close>
  by code_simp

section \<open>Properties of the deferred attachment\<close>

lemma dataLoaded_loadData: "dataLoaded (snd (loadData E A w))"
  by (auto simp: loadData_def Let_def load_and_style_def updateStyle_def wasm_def
           split: jsvalue.splits option.splits stringified.splits prod.splits)

lemma loadData_again: "dataLoaded w \<Longrightarrow> loadData E B w = (None, w)"
  by (simp add: loadData_def)

lemma loadData_detached:
  assumes "\<not> dataLoaded w" "\<not> on_map w" "A = Str t \<or> A = Other b (Json t)" "t \<noteq> []"
  shows "pendingGeoJSONText (snd (loadData E A w)) = Some t"
    and "pendingTimer (snd (loadData E A w))"
    and "calls (snd (loadData E A w)) = calls w"
    and "\<not> on_map (snd (loadData E A w))"
    and "geojsonLayerCount (snd (loadData E A w)) = geojsonLayerCount w"
  using assms
  by (auto simp: loadData_def Let_def split: option.splits)

lemma addTo_pending:
  assumes "pendingGeoJSONText w = Some t" "t \<noteq> []" "\<not> throws E (calls w) Add_geojson_layer"
  shows "forwarded (snd (addTo E w)) =
           forwarded w @ [Load_geojson (case geojsonLayerCount w of Some c \<Rightarrow> c | None \<Rightarrow> 0) (Some t)]"
    and "pendingGeoJSONText (snd (addTo E w)) = None"
    and "\<not> pendingTimer (snd (addTo E w))"
    and "on_map (snd (addTo E w))"
    and "layerIndex (snd (addTo E w)) = Some (case geojsonLayerCount w of Some c \<Rightarrow> c | None \<Rightarrow> 0)"
  using assms
  by (auto simp: addTo_def Let_def wasm_def load_and_style_def updateStyle_def forwarded_def
           split: option.splits prod.splits)

text \<open>
  C2 (as the code has it). \<open>loadData(A)\<close> sets \<open>dataLoaded\<close>, so a later
  \<open>loadData(B)\<close> is a no-op whatever \<open>B\<close> is: it neither overwrites the pending text nor
  queues behind it. For a layer that is not on a map and a payload \<open>A\<close> with a non-empty
  text, the pending text after both calls is the text of \<open>A\<close>; the timer changes nothing
  while the layer is not on a map; \<open>addTo\<close> then hands exactly that text to the engine,
  clears the pending text and cancels the timer.
\<close>

theorem first_pending_payload_wins:
  assumes "\<not> dataLoaded w" "\<not> on_map w"
    and "A = Str t \<or> A = Other b (Json t)" "t \<noteq> []"
    and "\<not> throws E (calls w) Add_geojson_layer"
  shows "loadData E B (snd (loadData E A w)) = (None, snd (loadData E A w))
    \<and> pendingGeoJSONText (snd (loadData E B (snd (loadData E A w)))) = Some t
    \<and> pendingTimer_fires E (snd (loadData E B (snd (loadData E A w)))) =
        (None, snd (loadData E B (snd (loadData E A w))))
    \<and> forwarded (snd (addTo E (snd (loadData E B (snd (loadData E A w)))))) =
        forwarded w @
          [Load_geojson (case geojsonLayerCount w of Some c \<Rightarrow> c | None \<Rightarrow> 0) (Some t)]
    \<and> pendingGeoJSONText (snd (addTo E (snd (loadData E B (snd (loadData E A w)))))) = None
    \<and> \<not> pendingTimer (snd (addTo E (snd (loadData E B (snd (loadData E A w))))))"
proof -
  let ?w1 = "snd (loadData E A w)"
  have again: "loadData E B ?w1 = (None, ?w1)"
    using dataLoaded_loadData by (rule loadData_again)
  note d = loadData_detached [OF assms(1-4), of E]
  have th: "\<not> throws E (calls ?w1) Add_geojson_layer" using assms(5) d(3) by simp
  note a = addTo_pending [OF d(1) assms(4) th]
  have f: "forwarded ?w1 = forwarded w" using d(3) by (simp add: forwarded_def)
  have idle: "pendingTimer_fires E ?w1 = (None, ?w1)"
    using d(4) by (simp add: pendingTimer_fires_def split: option.splits)
  show ?thesis
    unfolding again snd_conv using d(1) a(1,2,3) f d(5) idle by simp
qed

theorem first_pending_payload_wins_witness:
  \<open>pendingGeoJSONText (snd (loadData accepting (Str (js ''{"b":2}''))
       (snd (loadData accepting (Str (js ''{"a":1}'')) (new_layer null)))))
     = Some (js ''{"a":1}'')
   \<and> pendingGeoJSONText (snd (addTo accepting (snd (loadData accepting (Str (js ''{"b":2}''))
       (snd (loadData accepting (Str (js ''{"a":1}'')) (new_layer null))))))) = None\<close>
proof -
  let ?A = \<open>Str (js ''{"a":1}'')\<close>
  have h: "\<not> dataLoaded (new_layer null)" "\<not> on_map (new_layer null)"
    \<open>?A = Str (js ''{"a":1}'') \<or> ?A = Other True (Json (js ''{"a":1}''))\<close>
    \<open>js ''{"a":1}'' \<noteq> []\<close>
    "\<not> throws accepting (calls (new_layer null)) Add_geojson_layer"
    by (simp_all add: new_layer_def accepting_def js_def)
  from first_pending_payload_wins [OF h, of \<open>Str (js ''{"b":2}'')\<close>]
  show ?thesis by blast
qed

text \<open>
  C2 as stated fails: after \<open>loadData('{"a":1}')\<close> and \<open>loadData('{"b":2}')\<close> on a new
  layer, \<open>addTo\<close> hands the first payload to the engine, and the second never arrives.
\<close>

theorem later_payload_is_dropped_counterexample:
  \<open>forwarded (snd (addTo accepting (snd (loadData accepting (Str (js ''{"b":2}''))
     (snd (loadData accepting (Str (js ''{"a":1}'')) (new_layer null)))))))
   = [Load_geojson 0 (Some (js ''{"a":1}''))]\<close>
  by code_simp

section \<open>Properties of \<open>loadFromUrl\<close>\<close>

lemma settle_loader [simp]:
  "slot (settle x s) = slot s" "state_done (settle x s) = state_done s"
  "startTime (settle x s) = startTime s" "check_scheduled (settle x s) = check_scheduled s"
  "fetch_pending (settle x s) = fetch_pending s"
  "promise (settle x s) = (case promise s of None \<Rightarrow> Some x | Some y \<Rightarrow> Some y)"
  by (simp_all add: settle_def split: option.splits)

lemma report_loader [simp]:
  "slot (report opts r s) = slot s" "state_done (report opts r s) = state_done s"
  "startTime (report opts r s) = startTime s" "check_scheduled (report opts r s) = check_scheduled s"
  "fetch_pending (report opts r s) = fetch_pending s" "promise (report opts r s) = promise s"
  by (simp_all add: report_def)

lemma complete_loader [simp]:
  "slot (complete E opts n s) = slot s" "state_done (complete E opts n s) = state_done s"
  "startTime (complete E opts n s) = startTime s"
  "check_scheduled (complete E opts n s) = check_scheduled s"
  "fetch_pending (complete E opts n s) = fetch_pending s" "promise (complete E opts n s) = promise s"
  by (simp_all add: complete_def case_prod_beta)

lemma polling_start:
  assumes "on_map w" "\<not> throws E (calls w) (Load_geojson_from_url (layerIndex w) url)"
  shows "polling t0 (loadFromUrl E opts url t0 slot0 w)"
  using assms by (simp add: polling_def loadFromUrl_def Let_def wasm_def)

lemma polling_step:
  assumes "polling t0 s" "\<forall>t. ev = Timer t \<longrightarrow> t - t0 \<le> TIMEOUT_MS"
  shows "polling t0 (step E opts s ev)"
proof (cases ev)
  case (Timer t)
  with assms have "\<not> t - startTime s > TIMEOUT_MS" by (simp add: polling_def)
  with assms(1) Timer show ?thesis
    by (auto simp: polling_def checkForData_def Let_def split: option.splits prod.splits)
next
  case (Handoff d)
  with assms(1) show ?thesis by (simp add: polling_def)
next
  case (Fetch_text body)
  with assms(1) show ?thesis
    by (auto simp: polling_def fetch_then_def Let_def split: option.splits prod.splits)
next
  case (Fetch_error e)
  with assms(1) show ?thesis by (simp add: polling_def fetch_catch_def)
qed

lemma polling_run:
  assumes "polling t0 s" "\<forall>ev\<in>set evs. \<forall>t. ev = Timer t \<longrightarrow> t - t0 \<le> TIMEOUT_MS"
  shows "polling t0 (run E opts s evs)"
  using assms unfolding run_def
proof (induction evs arbitrary: s)
  case Nil
  then show ?case by simp
next
  case (Cons ev evs)
  from Cons.prems have "polling t0 (step E opts s ev)" by (intro polling_step) auto
  with Cons show ?case by simp
qed

lemma timeout_clears_slot:
  "check_scheduled s \<Longrightarrow> TIMEOUT_MS < now - startTime s \<Longrightarrow>
   slot (step E opts s (Timer now)) = None \<and> \<not> check_scheduled (step E opts s (Timer now))"
  by (simp add: checkForData_def Let_def)

text \<open>
  C8. A check that fires more than \<open>TIMEOUT_MS\<close> after the start deletes the global,
  whatever the global and \<open>state.done\<close> hold at that moment. And when the operation has
  started, every earlier check fired within the deadline and neither path has set
  \<open>state.done\<close>, that check also rejects the promise with the timeout error.
\<close>

theorem timeout_fails_and_clears_slot:
  "(check_scheduled s \<and> TIMEOUT_MS < now - startTime s \<longrightarrow>
      slot (step E opts s (Timer now)) = None)
   \<and> (on_map w \<and> \<not> throws E (calls w) (Load_geojson_from_url (layerIndex w) url)
       \<and> (\<forall>ev\<in>set evs. \<forall>t. ev = Timer t \<longrightarrow> t - t0 \<le> TIMEOUT_MS)
       \<and> \<not> state_done (run E opts (loadFromUrl E opts url t0 slot0 w) evs)
       \<and> TIMEOUT_MS < now - t0 \<longrightarrow>
         promise (step E opts (run E opts (loadFromUrl E opts url t0 slot0 w) evs) (Timer now))
           = Some (Rejected Timed_out)
         \<and> slot (step E opts (run E opts (loadFromUrl E opts url t0 slot0 w) evs) (Timer now))
           = None)"
proof (intro conjI impI)
  assume "check_scheduled s \<and> TIMEOUT_MS < now - startTime s"
  then show "slot (step E opts s (Timer now)) = None"
    using timeout_clears_slot by blast
next
  let ?s = "run E opts (loadFromUrl E opts url t0 slot0 w) evs"
  assume a: "on_map w \<and> \<not> throws E (calls w) (Load_geojson_from_url (layerIndex w) url)
       \<and> (\<forall>ev\<in>set evs. \<forall>t. ev = Timer t \<longrightarrow> t - t0 \<le> TIMEOUT_MS)
       \<and> \<not> state_done ?s \<and> TIMEOUT_MS < now - t0"
  then have "polling t0 (loadFromUrl E opts url t0 slot0 w)" by (simp add: polling_start)
  with a have p: "polling t0 ?s" by (simp add: polling_run)
  with a have c: "check_scheduled ?s" "promise ?s = None" "startTime ?s = t0" "\<not> state_done ?s"
    by (simp_all add: polling_def)
  with a show "promise (step E opts ?s (Timer now)) = Some (Rejected Timed_out)"
    by (simp add: checkForData_def Let_def)
  from c a show "slot (step E opts ?s (Timer now)) = None"
    by (simp add: checkForData_def Let_def)
qed

theorem timeout_fails_and_clears_slot_witness:
  "promise (step accepting (all_callbacks 1048576)
      (run accepting (all_callbacks 1048576)
         (loadFromUrl accepting (all_callbacks 1048576) (js ''u'') 0 None attached_layer)
         (polls 300))
      (Timer 30100)) = Some (Rejected Timed_out)
   \<and> slot (step accepting (all_callbacks 1048576)
      (run accepting (all_callbacks 1048576)
         (loadFromUrl accepting (all_callbacks 1048576) (js ''u'') 0 None attached_layer)
         (polls 300))
      (Timer 30100)) = None"
proof -
  let ?o = "all_callbacks 1048576"
  let ?s = "run accepting ?o (loadFromUrl accepting ?o (js ''u'') 0 None attached_layer) (polls 300)"
  have a: "on_map attached_layer"
    "\<not> throws accepting (calls attached_layer)
        (Load_geojson_from_url (layerIndex attached_layer) (js ''u''))"
    by code_simp+
  have b: "\<forall>ev\<in>set (polls 300). \<forall>t. ev = Timer t \<longrightarrow> t - 0 \<le> TIMEOUT_MS"
    by (auto simp: polls_def TIMEOUT_MS_def)
  have c: "\<not> state_done ?s" by code_simp
  have d: "TIMEOUT_MS < 30100 - 0" by (simp add: TIMEOUT_MS_def)
  from timeout_fails_and_clears_slot [where E = accepting and opts = "?o"
      and w = attached_layer and url = "js ''u''" and evs = "polls 300" and ?t0.0 = 0
      and ?slot0.0 = None and now = 30100] a b c d
  show ?thesis by blast
qed

text \<open>
  C3 does not hold. The timeout branch rejects the promise but leaves \<open>state.done\<close>
  false. On an idle page the check fires every 100 ms; the 301st, at 30100 ms, fails the
  operation with the timeout error, no completion having been reported. When the
  \<open>fetch\<close> delivers its text after that, it finds \<open>state.done\<close> false, hands the text
  to the engine and invokes \<open>completeCallback\<close>: the operation has failed and completed.
\<close>

theorem completion_after_timeout:
  \<open>promise (run accepting (all_callbacks 1048576)
       (loadFromUrl accepting (all_callbacks 1048576) (js ''u'') 0 None attached_layer)
       (polls 301)) = Some (Rejected Timed_out)
  \<and> completions (run accepting (all_callbacks 1048576)
       (loadFromUrl accepting (all_callbacks 1048576) (js ''u'') 0 None attached_layer)
       (polls 301)) = []
  \<and> completions (run accepting (all_callbacks 1048576)
       (loadFromUrl accepting (all_callbacks 1048576) (js ''u'') 0 None attached_layer)
       (polls 301 @ [Fetch_text (js ''{"a":1}'')]))
     = [\<lparr>totalFeatures = 0, totalBytes = 7, loadedBytes = None\<rparr>]
  \<and> forwarded (layer (run accepting (all_callbacks 1048576)
       (loadFromUrl accepting (all_callbacks 1048576) (js ''u'') 0 None attached_layer)
       (polls 301 @ [Fetch_text (js ''{"a":1}'')])))
     = [Load_geojson 0 (Some (js ''{"a":1}''))]\<close>
  by code_simp

text \<open>
  C4 does not hold. The engine writes its payload into the global, the \<open>fetch\<close> delivers
  first and wins, and the next check finds \<open>state.done\<close> set: it returns before the
  \<open>delete\<close> and schedules nothing. The operation has resolved, nothing of it is left to
  run, and the global still holds the payload.
\<close>

theorem slot_left_populated_after_lost_race:
  \<open>slot (run accepting (all_callbacks 1048576)
       (loadFromUrl accepting (all_callbacks 1048576) (js ''u'') 0 None attached_layer)
       [Handoff (js ''{"a":1}''), Fetch_text (js ''{"b":2}''), Timer 100]) = Some (js ''{"a":1}'')
  \<and> promise (run accepting (all_callbacks 1048576)
       (loadFromUrl accepting (all_callbacks 1048576) (js ''u'') 0 None attached_layer)
       [Handoff (js ''{"a":1}''), Fetch_text (js ''{"b":2}''), Timer 100]) = Some Resolved
  \<and> \<not> check_scheduled (run accepting (all_callbacks 1048576)
       (loadFromUrl accepting (all_callbacks 1048576) (js ''u'') 0 None attached_layer)
       [Handoff (js ''{"a":1}''), Fetch_text (js ''{"b":2}''), Timer 100])
  \<and> \<not> fetch_pending (run accepting (all_callbacks 1048576)
       (loadFromUrl accepting (all_callbacks 1048576) (js ''u'') 0 None attached_layer)
       [Handoff (js ''{"a":1}''), Fetch_text (js ''{"b":2}''), Timer 100])\<close>
  by code_simp

end
